theory Spec2Isabelle
  imports Main "HOL-Library.Sublist" "HOL-Library.Multiset"
begin

section \<open>Strings of the run time\<close>

text \<open>
  A JavaScript string is modelled as a \<^typ>\<open>string\<close>: the list of its code units, over the
  one-byte alphabet (code points below 256). \<open>String.prototype.trim\<close> removes the white
  space and line terminators at both ends; below 256 these are TAB, LF, VT, FF, CR, SPACE
  and NBSP. A string is truthy exactly when it is not empty.
\<close>

definition is_ws :: "char \<Rightarrow> bool" where
  "is_ws c = (c \<in> set [CHR 0x09, CHR 0x0A, CHR 0x0B, CHR 0x0C, CHR 0x0D, CHR 0x20, CHR 0xA0])"

definition trim :: "string \<Rightarrow> string" where
  "trim s = rev (dropWhile is_ws (rev (dropWhile is_ws s)))"

text \<open>
  \<open>Date.now()\<close> is a number of milliseconds, a natural number here, and
  \<open>Number.prototype.toString\<close> writes such a number in decimal, most significant digit
  first, with no leading zero.
\<close>

definition digit_char :: "nat \<Rightarrow> char" where
  "digit_char d = ''0123456789'' ! d"

function toString :: "nat \<Rightarrow> string" where
  "toString n = (if n < 10 then [digit_char n] else toString (n div 10) @ [digit_char (n mod 10)])"
  by pat_completeness auto
termination
  by (relation "measure (\<lambda>n. n)") auto

declare toString.simps [simp del]

text \<open>Reading a decimal numeral back, the inverse of \<open>toString\<close>.\<close>

definition digit_val :: "char \<Rightarrow> nat" where
  "digit_val c = of_char c - 48"

definition decimal :: "string \<Rightarrow> nat" where
  "decimal s = foldl (\<lambda>a c. 10 * a + digit_val c) 0 s"

section \<open>TodoContext: the data and the reducer\<close>

text \<open>
  \<open>interface Todo { id: string; text: string; completed: boolean }\<close>. The fields
  \<open>id\<close> and \<open>text\<close> carry a suffix, since both names are taken in Isabelle.
\<close>

record Todo =
  id_todo :: string
  text_todo :: string
  completed :: bool

datatype TodoAction =
    ADD_TODO string
  | TOGGLE_TODO string
  | DELETE_TODO string
  | EDIT_TODO string string
  | CLEAR_COMPLETED
  | LOAD_TODOS "Todo list"

text \<open>
  \<open>todoReducer(state, action)\<close>. The reducer reads the clock in its \<open>ADD_TODO\<close> branch;
  the reading \<open>now\<close> is the value \<open>Date.now()\<close> returns during the call, passed as the
  first argument. Arrays are never mutated by the source: spread, \<open>map\<close> and \<open>filter\<close>
  build new ones, as the list functions do. The \<open>default\<close> branch of the switch returns
  the state; no value of the action type reaches it.
\<close>

fun todoReducer :: "nat \<Rightarrow> Todo list \<Rightarrow> TodoAction \<Rightarrow> Todo list" where
  "todoReducer now state (ADD_TODO payload) =
     state @ [\<lparr>id_todo = toString now, text_todo = payload, completed = False\<rparr>]"
| "todoReducer now state (TOGGLE_TODO payload) =
     map (\<lambda>todo. if id_todo todo = payload
                  then todo\<lparr>completed := \<not> completed todo\<rparr>
                  else todo) state"
| "todoReducer now state (DELETE_TODO payload) =
     filter (\<lambda>todo. id_todo todo \<noteq> payload) state"
| "todoReducer now state (EDIT_TODO ident newText) =
     map (\<lambda>todo. if id_todo todo = ident
                  then todo\<lparr>text_todo := newText\<rparr>
                  else todo) state"
| "todoReducer now state CLEAR_COMPLETED =
     filter (\<lambda>todo. \<not> completed todo) state"
| "todoReducer now state (LOAD_TODOS payload) = payload"

text \<open>
  The action functions of \<open>TodoProvider\<close>. \<open>dispatch(action)\<close> replaces the state
  \<open>todos\<close> by \<open>todoReducer(todos, action)\<close>; each function below takes the state before
  the call and returns the state after it. \<open>addTodo\<close> and \<open>editTodo\<close> dispatch only
  when the trimmed text is truthy.
\<close>

definition addTodo :: "nat \<Rightarrow> Todo list \<Rightarrow> string \<Rightarrow> Todo list" where
  "addTodo now todos txt =
     (if trim txt \<noteq> [] then todoReducer now todos (ADD_TODO (trim txt)) else todos)"

definition toggleTodo :: "nat \<Rightarrow> Todo list \<Rightarrow> string \<Rightarrow> Todo list" where
  "toggleTodo now todos ident = todoReducer now todos (TOGGLE_TODO ident)"

definition deleteTodo :: "nat \<Rightarrow> Todo list \<Rightarrow> string \<Rightarrow> Todo list" where
  "deleteTodo now todos ident = todoReducer now todos (DELETE_TODO ident)"

definition editTodo :: "nat \<Rightarrow> Todo list \<Rightarrow> string \<Rightarrow> string \<Rightarrow> Todo list" where
  "editTodo now todos ident newText =
     (if trim newText \<noteq> [] then todoReducer now todos (EDIT_TODO ident (trim newText))
      else todos)"

definition clearCompleted :: "nat \<Rightarrow> Todo list \<Rightarrow> Todo list" where
  "clearCompleted now todos = todoReducer now todos CLEAR_COMPLETED"

text \<open>
  A session of the store: the calls made on the five action functions, each paired with
  the clock reading of the moment it runs.
\<close>

datatype call =
    AddTodo string
  | ToggleTodo string
  | DeleteTodo string
  | EditTodo string string
  | ClearCompleted

fun perform :: "Todo list \<Rightarrow> nat \<times> call \<Rightarrow> Todo list" where
  "perform todos (now, AddTodo txt) = addTodo now todos txt"
| "perform todos (now, ToggleTodo ident) = toggleTodo now todos ident"
| "perform todos (now, DeleteTodo ident) = deleteTodo now todos ident"
| "perform todos (now, EditTodo ident newText) = editTodo now todos ident newText"
| "perform todos (now, ClearCompleted) = clearCompleted now todos"

definition session :: "Todo list \<Rightarrow> (nat \<times> call) list \<Rightarrow> Todo list" where
  "session todos calls = foldl perform todos calls"

text \<open>The clock readings of the calls of a session that append an item.\<close>

fun add_readings :: "(nat \<times> call) list \<Rightarrow> nat list" where
  "add_readings [] = []"
| "add_readings ((now, AddTodo txt) # calls) =
     (if trim txt \<noteq> [] then now # add_readings calls else add_readings calls)"
| "add_readings (c # calls) = add_readings calls"

section \<open>TodoList: the view projection\<close>

text \<open>
  \<open>type FilterType = 'all' | 'active' | 'completed'\<close>, and the three memoised values of
  \<open>TodoList\<close>: \<open>filteredTodos\<close>, \<open>completedCount\<close> and \<open>activeCount\<close>. The
  \<open>default\<close> label of the switch shares the branch of \<open>'all'\<close>.
\<close>

datatype FilterType = all_filter | active_filter | completed_filter

definition filteredTodos :: "Todo list \<Rightarrow> FilterType \<Rightarrow> Todo list" where
  "filteredTodos todos flt =
     (case flt of
        active_filter \<Rightarrow> filter (\<lambda>todo. \<not> completed todo) todos
      | completed_filter \<Rightarrow> filter (\<lambda>todo. completed todo) todos
      | all_filter \<Rightarrow> todos)"

definition completedCount :: "Todo list \<Rightarrow> nat" where
  "completedCount todos = length (filter (\<lambda>todo. completed todo) todos)"

definition activeCount :: "Todo list \<Rightarrow> nat" where
  "activeCount todos = length (filter (\<lambda>todo. \<not> completed todo) todos)"

section \<open>Reading the persistence medium\<close>

text \<open>
  A call that can throw either throws or returns a value. \<open>localStorage.getItem(key)\<close>
  returns \<open>null\<close> (\<open>None\<close>) for a key that is not stored, returns the stored string
  otherwise, and throws when the medium cannot be accessed.
\<close>

datatype 'a outcome = Throws | Returns 'a

subsection \<open>ThemeProvider\<close>

datatype ThemeType = light | dark

text \<open>
  The body of the \<open>try\<close> block of the lazy initializer: it throws when \<open>getItem\<close>
  throws, returns the saved theme when it is one of the two literals, and otherwise
  runs to its end without returning (\<open>Returns None\<close>).
\<close>

definition theme_try_block :: "string option outcome \<Rightarrow> ThemeType option outcome" where
  "theme_try_block getItem_theme =
     (case getItem_theme of
        Throws \<Rightarrow> Throws
      | Returns savedTheme \<Rightarrow>
          if savedTheme = Some ''light'' then Returns (Some light)
          else if savedTheme = Some ''dark'' then Returns (Some dark)
          else Returns None)"

text \<open>
  The initializer passed to \<open>useState\<close>: the \<open>catch\<close> clause logs and falls through
  to the final \<open>return 'light'\<close>. Its argument is the outcome of the one call of
  \<open>localStorage.getItem('theme')\<close> it makes.
\<close>

definition initialTheme :: "string option outcome \<Rightarrow> ThemeType outcome" where
  "initialTheme getItem_theme =
     (case theme_try_block getItem_theme of
        Throws \<Rightarrow> Returns light
      | Returns (Some savedTheme) \<Rightarrow> Returns savedTheme
      | Returns None \<Rightarrow> Returns light)"

subsection \<open>JSON values\<close>

text \<open>
  TypeScript's types are erased at run time: what \<open>JSON.parse\<close> returns, and so what the
  \<open>LOAD_TODOS\<close> action carries when the provider mounts, is any JSON value. A well-typed
  collection is the array of the objects \<open>json_of_todo\<close> builds, as \<open>JSON.stringify\<close>
  writes it.
\<close>

datatype json =
    JNull
  | JBool bool
  | JNum int
  | JStr string
  | JArr "json list"
  | JObj "(string \<times> json) list"

definition json_of_todo :: "Todo \<Rightarrow> json" where
  "json_of_todo todo =
     JObj [(''id'', JStr (id_todo todo)), (''text'', JStr (text_todo todo)),
           (''completed'', JBool (completed todo))]"

definition json_of_todos :: "Todo list \<Rightarrow> json" where
  "json_of_todos todos = JArr (map json_of_todo todos)"

text \<open>
  \<open>JSON.parse\<close> belongs to the JavaScript run time, not to this repository. It is
  modelled here on a fragment of JSON: the three literals, integers without fraction or
  exponent, strings without escape sequences, arrays and objects, with white space
  between tokens. \<open>Throws\<close> is its \<open>SyntaxError\<close>. The general statements below take
  the parser as a parameter; this one evaluates concrete stored texts of the fragment.
\<close>

definition is_json_ws :: "char \<Rightarrow> bool" where
  "is_json_ws c = (c \<in> set [CHR 0x20, CHR 0x09, CHR 0x0A, CHR 0x0D])"

definition skip_ws :: "string \<Rightarrow> string" where
  "skip_ws s = dropWhile is_json_ws s"

definition is_digit :: "char \<Rightarrow> bool" where
  "is_digit c = (c \<in> set ''0123456789'')"

text \<open>The characters of a string after its opening quote, up to the closing quote.\<close>

fun parse_chars :: "string \<Rightarrow> (string \<times> string) option" where
  "parse_chars [] = None"
| "parse_chars (c # cs) =
     (if c = CHR 0x22 then Some ([], cs)
      else if c = CHR 0x5C \<or> (of_char c :: nat) < 32 then None
      else (case parse_chars cs of
              None \<Rightarrow> None
            | Some (str, r) \<Rightarrow> Some (c # str, r)))"

definition parse_int :: "string \<Rightarrow> (int \<times> string) option" where
  "parse_int s =
     (let neg = (s \<noteq> [] \<and> hd s = CHR ''-'');
          r = (if neg then tl s else s);
          ds = (if r \<noteq> [] \<and> hd r = CHR ''0'' then ''0'' else takeWhile is_digit r);
          rest = drop (length ds) r;
          n = int (decimal ds)
      in if ds = [] then None
         else if rest \<noteq> [] \<and> hd rest \<in> set ''.eE'' then None
         else Some (if neg then - n else n, rest))"

text \<open>
  Recursive descent with fuel: one unit for each value, element list and member list
  entered. \<open>parse_elements\<close> reads the elements of an array after its opening bracket
  and \<open>parse_members\<close> the members of an object after its opening brace, when they are
  not empty.
\<close>

fun parse_value :: "nat \<Rightarrow> string \<Rightarrow> (json \<times> string) option"
  and parse_elements :: "nat \<Rightarrow> string \<Rightarrow> (json list \<times> string) option"
  and parse_members :: "nat \<Rightarrow> string \<Rightarrow> ((string \<times> json) list \<times> string) option"
where
  "parse_value 0 s = None"
| "parse_value (Suc n) s =
     (case skip_ws s of
        [] \<Rightarrow> None
      | c # r \<Rightarrow>
          if c = CHR ''n'' then (if take 3 r = ''ull'' then Some (JNull, drop 3 r) else None)
          else if c = CHR ''t'' then
            (if take 3 r = ''rue'' then Some (JBool True, drop 3 r) else None)
          else if c = CHR ''f'' then
            (if take 4 r = ''alse'' then Some (JBool False, drop 4 r) else None)
          else if c = CHR 0x22 then
            (case parse_chars r of
               None \<Rightarrow> None
             | Some (str, r') \<Rightarrow> Some (JStr str, r'))
          else if c = CHR ''['' then
            (if skip_ws r \<noteq> [] \<and> hd (skip_ws r) = CHR '']''
             then Some (JArr [], tl (skip_ws r))
             else (case parse_elements n r of
                     None \<Rightarrow> None
                   | Some (vs, r') \<Rightarrow> Some (JArr vs, r')))
          else if c = CHR ''{'' then
            (if skip_ws r \<noteq> [] \<and> hd (skip_ws r) = CHR ''}''
             then Some (JObj [], tl (skip_ws r))
             else (case parse_members n r of
                     None \<Rightarrow> None
                   | Some (ms, r') \<Rightarrow> Some (JObj ms, r')))
          else (case parse_int (c # r) of
                  None \<Rightarrow> None
                | Some (i, r') \<Rightarrow> Some (JNum i, r')))"
| "parse_elements 0 s = None"
| "parse_elements (Suc n) s =
     (case parse_value n s of
        None \<Rightarrow> None
      | Some (v, r) \<Rightarrow>
          (case skip_ws r of
             [] \<Rightarrow> None
           | c # r' \<Rightarrow>
               if c = CHR '']'' then Some ([v], r')
               else if c = CHR '','' then
                 (case parse_elements n r' of
                    None \<Rightarrow> None
                  | Some (vs, r'') \<Rightarrow> Some (v # vs, r''))
               else None))"
| "parse_members 0 s = None"
| "parse_members (Suc n) s =
     (case skip_ws s of
        [] \<Rightarrow> None
      | q # r \<Rightarrow>
          if q \<noteq> CHR 0x22 then None
          else
            (case parse_chars r of
               None \<Rightarrow> None
             | Some (k, r1) \<Rightarrow>
                 (case skip_ws r1 of
                    [] \<Rightarrow> None
                  | c # r2 \<Rightarrow>
                      if c \<noteq> CHR '':'' then None
                      else
                        (case parse_value n r2 of
                           None \<Rightarrow> None
                         | Some (v, r3) \<Rightarrow>
                             (case skip_ws r3 of
                                [] \<Rightarrow> None
                              | d # r4 \<Rightarrow>
                                  if d = CHR ''}'' then Some ([(k, v)], r4)
                                  else if d = CHR '','' then
                                    (case parse_members n r4 of
                                       None \<Rightarrow> None
                                     | Some (ms, r5) \<Rightarrow> Some ((k, v) # ms, r5))
                                  else None)))))"

definition JSON_parse :: "string \<Rightarrow> json outcome" where
  "JSON_parse s =
     (case parse_value (2 * length s + 2) s of
        None \<Rightarrow> Throws
      | Some (v, r) \<Rightarrow> if skip_ws r = [] then Returns v else Throws)"

subsection \<open>TodoProvider\<close>

text \<open>
  The \<open>LOAD_TODOS\<close> branch of the reducer as it runs on mount, \<open>return action.payload\<close>,
  on whatever value the payload is.
\<close>

definition load_payload :: "json \<Rightarrow> json \<Rightarrow> json" where
  "load_payload state payload = payload"

text \<open>
  The body of the \<open>try\<close> block of the mount effect, from the state \<open>useReducer\<close> starts
  with: \<open>getItem\<close> and \<open>JSON.parse\<close> can throw; a saved text that is \<open>null\<close> or the empty
  string is falsy and nothing is dispatched; any other text is parsed and the parsed
  value dispatched.
\<close>

definition load_try_block ::
  "(string \<Rightarrow> json outcome) \<Rightarrow> json \<Rightarrow> string option outcome \<Rightarrow> json outcome" where
  "load_try_block parse state getItem_todos =
     (case getItem_todos of
        Throws \<Rightarrow> Throws
      | Returns None \<Rightarrow> Returns state
      | Returns (Some savedTodos) \<Rightarrow>
          if savedTodos = [] then Returns state
          else (case parse savedTodos of
                  Throws \<Rightarrow> Throws
                | Returns parsedTodos \<Rightarrow> Returns (load_payload state parsedTodos)))"

text \<open>
  The state of the store once the mount effect has run: the initial state is the empty
  array, and the \<open>catch\<close> clause logs and leaves the state as it is.
\<close>

definition initialTodos ::
  "(string \<Rightarrow> json outcome) \<Rightarrow> string option outcome \<Rightarrow> json outcome" where
  "initialTodos parse getItem_todos =
     (case load_try_block parse (JArr []) getItem_todos of
        Throws \<Rightarrow> Returns (JArr [])
      | Returns state \<Rightarrow> Returns state)"

section \<open>Decimal identifiers\<close>

lemma digit_val_digit_char: "d < 10 \<Longrightarrow> digit_val (digit_char d) = d"
proof -
  assume "d < 10"
  then have "d \<in> {0, 1, 2, 3, 4, 5, 6, 7, 8, 9}" by auto
  then show ?thesis by (auto simp: digit_val_def digit_char_def)
qed

lemma decimal_snoc: "decimal (s @ [c]) = 10 * decimal s + digit_val c"
  by (simp add: decimal_def)

lemma decimal_toString: "decimal (toString n) = n"
proof (induction n rule: toString.induct)
  case (1 n)
  show ?case
  proof (cases "n < 10")
    case True
    then show ?thesis by (simp add: toString.simps[of n] decimal_def digit_val_digit_char)
  next
    case False
    then have "decimal (toString (n div 10)) = n div 10" using 1 by simp
    with False show ?thesis
      by (simp add: toString.simps[of n] decimal_snoc digit_val_digit_char)
  qed
qed

lemma toString_inject: "toString m = toString n \<longleftrightarrow> m = n"
  by (metis decimal_toString)

section \<open>Identifiers of the collection\<close>

lemma ids_toggle: "map id_todo (toggleTodo now todos ident) = map id_todo todos"
  by (simp add: toggleTodo_def)

lemma ids_edit: "map id_todo (editTodo now todos ident newText) = map id_todo todos"
  by (simp add: editTodo_def)

lemma ids_delete:
  "map id_todo (deleteTodo now todos ident) = filter (\<lambda>i. i \<noteq> ident) (map id_todo todos)"
  by (simp add: deleteTodo_def filter_map comp_def)

lemma ids_clear:
  "map id_todo (clearCompleted now todos) =
     map id_todo (filter (\<lambda>todo. \<not> completed todo) todos)"
  by (simp add: clearCompleted_def)

lemma ids_add:
  "map id_todo (addTodo now todos txt) =
     (if trim txt \<noteq> [] then map id_todo todos @ [toString now] else map id_todo todos)"
  by (simp add: addTodo_def)

text \<open>
  One call keeps the identifiers pairwise distinct and introduces at most the decimal
  string of its own clock reading, when that string is not in use.
\<close>

lemma perform_keeps_distinct:
  assumes "distinct (map id_todo todos)"
    and "toString now \<notin> set (map id_todo todos) \<or> add_readings [(now, c)] = []"
  shows "distinct (map id_todo (perform todos (now, c)))"
proof (cases c)
  case (AddTodo input)
  with assms show ?thesis by (auto simp: ids_add)
next
  case (ToggleTodo ident)
  with assms show ?thesis by (simp add: ids_toggle)
next
  case (DeleteTodo ident)
  with assms show ?thesis by (simp add: ids_delete)
next
  case (EditTodo ident newText)
  with assms show ?thesis by (simp add: ids_edit)
next
  case ClearCompleted
  with assms show ?thesis by (simp add: ids_clear distinct_map_filter)
qed

lemma perform_ids_subset:
  "set (map id_todo (perform todos (now, c))) \<subseteq>
     set (map id_todo todos) \<union> toString ` set (add_readings [(now, c)])"
proof (cases c)
  case (AddTodo input)
  then show ?thesis by (auto simp: ids_add)
next
  case (ToggleTodo ident)
  then show ?thesis by (simp add: ids_toggle)
next
  case (DeleteTodo ident)
  then show ?thesis by (auto simp: ids_delete)
next
  case (EditTodo ident newText)
  then show ?thesis by (simp add: ids_edit)
next
  case ClearCompleted
  then show ?thesis by (auto simp: ids_clear)
qed

lemma add_readings_Cons:
  "add_readings ((now, c) # calls) = add_readings [(now, c)] @ add_readings calls"
  by (cases c) auto

lemma session_keeps_distinct:
  assumes "distinct (map id_todo todos)"
    and "distinct (add_readings calls)"
    and "set (map id_todo todos) \<inter> toString ` set (add_readings calls) = {}"
  shows "distinct (map id_todo (foldl perform todos calls))"
  using assms
proof (induction calls arbitrary: todos)
  case Nil
  then show ?case by simp
next
  case (Cons nc calls)
  obtain now c where nc: "nc = (now, c)" by (cases nc)
  let ?here = "add_readings [(now, c)]"
  let ?todos' = "perform todos (now, c)"
  have split: "add_readings (nc # calls) = ?here @ add_readings calls"
    unfolding nc by (rule add_readings_Cons)
  have here: "?here = [] \<or> ?here = [now]"
    by (cases c) auto
  have fresh: "toString now \<notin> set (map id_todo todos) \<or> ?here = []"
    using Cons.prems(3) here unfolding split by auto
  have d1: "distinct (map id_todo ?todos')"
    using Cons.prems(1) fresh by (rule perform_keeps_distinct)
  have d2: "distinct (add_readings calls)"
    using Cons.prems(2) unfolding split by simp
  have "toString ` set ?here \<inter> toString ` set (add_readings calls) = {}"
    using Cons.prems(2) unfolding split by (auto simp: toString_inject)
  moreover have "set (map id_todo todos) \<inter> toString ` set (add_readings calls) = {}"
    using Cons.prems(3) unfolding split by auto
  ultimately have d3: "set (map id_todo ?todos') \<inter> toString ` set (add_readings calls) = {}"
    using perform_ids_subset[of todos now c] by blast
  have "distinct (map id_todo (foldl perform ?todos' calls))"
    using d1 d2 d3 by (rule Cons.IH)
  then show ?case by (simp add: nc)
qed

text \<open>
  C1, as the code has it. Start from a collection whose identifiers are pairwise distinct
  (the empty collection is one) and run any sequence of \<open>addTodo\<close>, \<open>toggleTodo\<close>,
  \<open>deleteTodo\<close>, \<open>editTodo\<close> and \<open>clearCompleted\<close> calls. If the calls that append an
  item read pairwise different clock values, and the decimal string of none of these
  values is an identifier of the starting collection, then the identifiers of the
  resulting collection are pairwise distinct.
\<close>

theorem session_ids_distinct:
  "distinct (map id_todo todos) \<Longrightarrow>
   distinct (add_readings calls) \<Longrightarrow>
   set (map id_todo todos) \<inter> toString ` set (add_readings calls) = {} \<Longrightarrow>
   distinct (map id_todo (session todos calls))"
  unfolding session_def by (rule session_keeps_distinct)

theorem session_ids_distinct_witness:
  "distinct (add_readings
      [(1700000000000, AddTodo ''Buy milk''), (1700000000001, AddTodo ''   ''),
       (1700000000001, AddTodo ''Walk dog''), (1700000000001, ToggleTodo ''1700000000000''),
       (1700000000001, ClearCompleted), (1700000000007, AddTodo '' Buy milk '')]) \<and>
   distinct (map id_todo (session []
      [(1700000000000, AddTodo ''Buy milk''), (1700000000001, AddTodo ''   ''),
       (1700000000001, AddTodo ''Walk dog''), (1700000000001, ToggleTodo ''1700000000000''),
       (1700000000001, ClearCompleted), (1700000000007, AddTodo '' Buy milk '')]))"
proof -
  let ?calls = "[(1700000000000, AddTodo ''Buy milk''), (1700000000001, AddTodo ''   ''),
       (1700000000001, AddTodo ''Walk dog''), (1700000000001, ToggleTodo ''1700000000000''),
       (1700000000001, ClearCompleted), (1700000000007, AddTodo '' Buy milk '')]"
  have r: "add_readings ?calls = [1700000000000, 1700000000001, 1700000000007]"
    by (simp add: trim_def is_ws_def)
  have h1: "distinct (map id_todo ([] :: Todo list))" by simp
  have h2: "distinct (add_readings ?calls)" unfolding r by simp
  have h3: "set (map id_todo ([] :: Todo list)) \<inter> toString ` set (add_readings ?calls) = {}"
    by simp
  show ?thesis using h2 session_ids_distinct[OF h1 h2 h3] by simp
qed

text \<open>
  The identifier is the clock reading alone, so two \<open>addTodo\<close> calls that run in the
  same millisecond produce two items with the same identifier.
\<close>

theorem same_tick_ids_collide:
  "\<not> distinct (map id_todo (session []
      [(1700000000000, AddTodo ''Buy milk''), (1700000000000, AddTodo ''Walk dog'')]))"
  by (simp add: session_def addTodo_def trim_def is_ws_def)

section \<open>Adding an item\<close>

text \<open>
  C3. \<open>addTodo\<close> on a text that trims to the empty string returns the collection as it
  was. On any other text it returns the old collection followed by exactly one new item,
  whose text is the trimmed input and whose completed flag is false: the result is one
  longer, and every position of the old collection holds the item it held before.
\<close>

theorem addTodo_appends_trimmed:
  "(trim txt = [] \<longrightarrow> addTodo now todos txt = todos) \<and>
   (trim txt \<noteq> [] \<longrightarrow>
      addTodo now todos txt =
        todos @ [\<lparr>id_todo = id_todo (last (addTodo now todos txt)),
                   text_todo = trim txt, completed = False\<rparr>] \<and>
      length (addTodo now todos txt) = Suc (length todos) \<and>
      (\<forall>k < length todos. addTodo now todos txt ! k = todos ! k))"
  by (simp add: addTodo_def nth_append)

theorem addTodo_appends_trimmed_witness:
  "trim ''   '' = [] \<and> trim '' Walk dog  '' = ''Walk dog'' \<and>
   addTodo 1700000000000 [\<lparr>id_todo = ''7'', text_todo = ''Buy milk'', completed = True\<rparr>] ''   '' =
     [\<lparr>id_todo = ''7'', text_todo = ''Buy milk'', completed = True\<rparr>] \<and>
   length (addTodo 1700000000000
     [\<lparr>id_todo = ''7'', text_todo = ''Buy milk'', completed = True\<rparr>] '' Walk dog  '') = 2 \<and>
   addTodo 1700000000000
     [\<lparr>id_todo = ''7'', text_todo = ''Buy milk'', completed = True\<rparr>] '' Walk dog  '' ! 0 =
     \<lparr>id_todo = ''7'', text_todo = ''Buy milk'', completed = True\<rparr>"
proof -
  let ?todos = "[\<lparr>id_todo = ''7'', text_todo = ''Buy milk'', completed = True\<rparr>]"
  have blank: "trim ''   '' = []" by (simp add: trim_def is_ws_def)
  have kept: "trim '' Walk dog  '' = ''Walk dog''" by (simp add: trim_def is_ws_def)
  show ?thesis
    using blank kept
      addTodo_appends_trimmed[of "''   ''" 1700000000000 ?todos]
      addTodo_appends_trimmed[of "'' Walk dog  ''" 1700000000000 ?todos]
    by simp
qed

section \<open>Editing an item\<close>

lemma editTodo_blank: "trim newText = [] \<Longrightarrow> editTodo now todos ident newText = todos"
  by (simp add: editTodo_def)

lemma editTodo_length: "length (editTodo now todos ident newText) = length todos"
  by (simp add: editTodo_def)

lemma editTodo_nth:
  "trim newText \<noteq> [] \<Longrightarrow> k < length todos \<Longrightarrow>
   editTodo now todos ident newText ! k =
     (if id_todo (todos ! k) = ident then (todos ! k)\<lparr>text_todo := trim newText\<rparr>
      else todos ! k)"
  by (simp add: editTodo_def)

lemma editTodo_changes_one:
  assumes ne: "trim newText \<noteq> []" and d: "distinct (map id_todo todos)"
    and j: "j < length todos" and k: "k < length todos"
    and cj: "editTodo now todos ident newText ! j \<noteq> todos ! j"
    and ck: "editTodo now todos ident newText ! k \<noteq> todos ! k"
  shows "j = k"
proof -
  have "id_todo (todos ! j) = ident"
    using cj editTodo_nth[OF ne j, of now ident] by (simp split: if_splits)
  moreover have "id_todo (todos ! k) = ident"
    using ck editTodo_nth[OF ne k, of now ident] by (simp split: if_splits)
  ultimately have "map id_todo todos ! j = map id_todo todos ! k"
    using j k by simp
  then show ?thesis
    using nth_eq_iff_index_eq[OF d, of j k] j k by simp
qed

text \<open>
  C4. \<open>editTodo\<close> with a new text that trims to the empty string returns the collection
  as it was. With any other text the result has the same length, and at every position
  the item keeps its identifier and its completed flag; its text becomes the trimmed new
  text when its identifier is the one given and stays as it was otherwise. When the
  identifiers of the collection are pairwise distinct, at most one position changes.
\<close>

theorem editTodo_frame:
  "(trim newText = [] \<longrightarrow> editTodo now todos ident newText = todos) \<and>
   (trim newText \<noteq> [] \<longrightarrow>
      length (editTodo now todos ident newText) = length todos \<and>
      (\<forall>k < length todos.
         id_todo (editTodo now todos ident newText ! k) = id_todo (todos ! k) \<and>
         completed (editTodo now todos ident newText ! k) = completed (todos ! k) \<and>
         text_todo (editTodo now todos ident newText ! k) =
           (if id_todo (todos ! k) = ident then trim newText else text_todo (todos ! k))) \<and>
      (distinct (map id_todo todos) \<longrightarrow>
         (\<forall>j < length todos. \<forall>k < length todos.
            editTodo now todos ident newText ! j \<noteq> todos ! j \<and>
            editTodo now todos ident newText ! k \<noteq> todos ! k \<longrightarrow> j = k)))"
proof -
  have blank: "trim newText = [] \<longrightarrow> editTodo now todos ident newText = todos"
    by (simp add: editTodo_blank)
  have fields: "trim newText \<noteq> [] \<longrightarrow>
      (\<forall>k < length todos.
         id_todo (editTodo now todos ident newText ! k) = id_todo (todos ! k) \<and>
         completed (editTodo now todos ident newText ! k) = completed (todos ! k) \<and>
         text_todo (editTodo now todos ident newText ! k) =
           (if id_todo (todos ! k) = ident then trim newText else text_todo (todos ! k)))"
    by (simp add: editTodo_nth)
  have one: "trim newText \<noteq> [] \<longrightarrow> distinct (map id_todo todos) \<longrightarrow>
         (\<forall>j < length todos. \<forall>k < length todos.
            editTodo now todos ident newText ! j \<noteq> todos ! j \<and>
            editTodo now todos ident newText ! k \<noteq> todos ! k \<longrightarrow> j = k)"
    using editTodo_changes_one[of newText todos _ _ now ident] by blast
  from blank fields one show ?thesis
    by (simp add: editTodo_length)
qed

theorem editTodo_frame_witness:
  "trim ''  '' = [] \<and> trim '' Buy oat milk '' = ''Buy oat milk'' \<and>
   editTodo 0 [\<lparr>id_todo = ''7'', text_todo = ''Buy milk'', completed = True\<rparr>,
               \<lparr>id_todo = ''8'', text_todo = ''Walk dog'', completed = False\<rparr>] ''7'' ''  '' =
     [\<lparr>id_todo = ''7'', text_todo = ''Buy milk'', completed = True\<rparr>,
      \<lparr>id_todo = ''8'', text_todo = ''Walk dog'', completed = False\<rparr>] \<and>
   text_todo (editTodo 0 [\<lparr>id_todo = ''7'', text_todo = ''Buy milk'', completed = True\<rparr>,
               \<lparr>id_todo = ''8'', text_todo = ''Walk dog'', completed = False\<rparr>]
               ''7'' '' Buy oat milk '' ! 0) = ''Buy oat milk'' \<and>
   completed (editTodo 0 [\<lparr>id_todo = ''7'', text_todo = ''Buy milk'', completed = True\<rparr>,
               \<lparr>id_todo = ''8'', text_todo = ''Walk dog'', completed = False\<rparr>]
               ''7'' '' Buy oat milk '' ! 0) = True \<and>
   text_todo (editTodo 0 [\<lparr>id_todo = ''7'', text_todo = ''Buy milk'', completed = True\<rparr>,
               \<lparr>id_todo = ''8'', text_todo = ''Walk dog'', completed = False\<rparr>]
               ''7'' '' Buy oat milk '' ! 1) = ''Walk dog''"
proof -
  let ?todos = "[\<lparr>id_todo = ''7'', text_todo = ''Buy milk'', completed = True\<rparr>,
               \<lparr>id_todo = ''8'', text_todo = ''Walk dog'', completed = False\<rparr>]"
  have blank: "trim ''  '' = []" by (simp add: trim_def is_ws_def)
  have kept: "trim '' Buy oat milk '' = ''Buy oat milk''" by (simp add: trim_def is_ws_def)
  show ?thesis
    using blank kept
      editTodo_frame[of "''  ''" 0 ?todos "''7''"]
      editTodo_frame[of "'' Buy oat milk ''" 0 ?todos "''7''"]
    by simp
qed

section \<open>Removing items\<close>

text \<open>
  C5. \<open>clearCompleted\<close> returns exactly the items whose completed flag is false, in
  their original relative order: the result is the subsequence of the collection
  selected by that flag, no item in it is completed, every item that is not completed
  is still there, and each as many times as before.
\<close>

theorem clearCompleted_keeps_active:
  "clearCompleted now todos = filter (\<lambda>todo. \<not> completed todo) todos \<and>
   subseq (clearCompleted now todos) todos \<and>
   (\<forall>todo \<in> set (clearCompleted now todos). \<not> completed todo) \<and>
   (\<forall>todo \<in> set todos. \<not> completed todo \<longrightarrow> todo \<in> set (clearCompleted now todos)) \<and>
   mset (clearCompleted now todos) = filter_mset (\<lambda>todo. \<not> completed todo) (mset todos)"
  by (simp add: clearCompleted_def)

theorem clearCompleted_keeps_active_witness:
  "clearCompleted 0
     [\<lparr>id_todo = ''1'', text_todo = ''Buy milk'', completed = False\<rparr>,
      \<lparr>id_todo = ''2'', text_todo = ''Walk dog'', completed = True\<rparr>,
      \<lparr>id_todo = ''3'', text_todo = ''Call mum'', completed = False\<rparr>] =
     [\<lparr>id_todo = ''1'', text_todo = ''Buy milk'', completed = False\<rparr>,
      \<lparr>id_todo = ''3'', text_todo = ''Call mum'', completed = False\<rparr>]"
  using clearCompleted_keeps_active[of 0
     "[\<lparr>id_todo = ''1'', text_todo = ''Buy milk'', completed = False\<rparr>,
      \<lparr>id_todo = ''2'', text_todo = ''Walk dog'', completed = True\<rparr>,
      \<lparr>id_todo = ''3'', text_todo = ''Call mum'', completed = False\<rparr>]"]
  by simp

text \<open>
  C9. \<open>deleteTodo\<close> removes every item whose identifier is the given one, also when
  several items share it: no item of the result has that identifier, and the items with
  any other identifier are all kept, each as many times as before and in their original
  relative order.
\<close>

theorem deleteTodo_removes_every_match:
  "ident \<notin> set (map id_todo (deleteTodo now todos ident)) \<and>
   deleteTodo now todos ident = filter (\<lambda>todo. id_todo todo \<noteq> ident) todos \<and>
   subseq (deleteTodo now todos ident) todos \<and>
   (\<forall>todo \<in> set todos. id_todo todo \<noteq> ident \<longrightarrow> todo \<in> set (deleteTodo now todos ident)) \<and>
   mset (deleteTodo now todos ident) = filter_mset (\<lambda>todo. id_todo todo \<noteq> ident) (mset todos)"
  by (auto simp: deleteTodo_def)

theorem deleteTodo_removes_every_match_witness:
  "deleteTodo 0
     [\<lparr>id_todo = ''5'', text_todo = ''Buy milk'', completed = False\<rparr>,
      \<lparr>id_todo = ''2'', text_todo = ''Walk dog'', completed = True\<rparr>,
      \<lparr>id_todo = ''5'', text_todo = ''Call mum'', completed = True\<rparr>,
      \<lparr>id_todo = ''9'', text_todo = ''Pay rent'', completed = False\<rparr>] ''5'' =
     [\<lparr>id_todo = ''2'', text_todo = ''Walk dog'', completed = True\<rparr>,
      \<lparr>id_todo = ''9'', text_todo = ''Pay rent'', completed = False\<rparr>]"
  using deleteTodo_removes_every_match[of "''5''" 0
     "[\<lparr>id_todo = ''5'', text_todo = ''Buy milk'', completed = False\<rparr>,
      \<lparr>id_todo = ''2'', text_todo = ''Walk dog'', completed = True\<rparr>,
      \<lparr>id_todo = ''5'', text_todo = ''Call mum'', completed = True\<rparr>,
      \<lparr>id_todo = ''9'', text_todo = ''Pay rent'', completed = False\<rparr>]"]
  by simp

section \<open>Toggling an item\<close>

lemma map_unmatched:
  "ident \<notin> set (map id_todo todos) \<Longrightarrow>
   map (\<lambda>todo. if id_todo todo = ident then f todo else todo) todos = todos"
  by (induction todos) auto

lemma toggle_toggle_item:
  "(if id_todo (if id_todo todo = ident then todo\<lparr>completed := \<not> completed todo\<rparr> else todo) = ident
    then (if id_todo todo = ident then todo\<lparr>completed := \<not> completed todo\<rparr> else todo)
           \<lparr>completed := \<not> completed
              (if id_todo todo = ident then todo\<lparr>completed := \<not> completed todo\<rparr> else todo)\<rparr>
    else (if id_todo todo = ident then todo\<lparr>completed := \<not> completed todo\<rparr> else todo)) = todo"
  by simp

text \<open>
  C6. Toggling the same identifier twice gives back the collection as it was: the
  completed flag of the matching item has its original value, and every other item and
  the order are unchanged. This holds for every collection and identifier, so in
  particular when the identifiers are pairwise distinct and the identifier is present.
  One toggle keeps the length and flips the flag exactly at the positions whose
  identifier matches; when no item matches, it returns the collection unchanged.
\<close>

theorem toggleTodo_twice:
  "toggleTodo now' (toggleTodo now todos ident) ident = todos \<and>
   length (toggleTodo now todos ident) = length todos \<and>
   (\<forall>k < length todos.
      toggleTodo now todos ident ! k =
        (if id_todo (todos ! k) = ident
         then (todos ! k)\<lparr>completed := \<not> completed (todos ! k)\<rparr> else todos ! k)) \<and>
   (ident \<notin> set (map id_todo todos) \<longrightarrow> toggleTodo now todos ident = todos)"
proof -
  have twice: "toggleTodo now' (toggleTodo now todos ident) ident = todos"
    by (simp add: toggleTodo_def comp_def toggle_toggle_item)
  have absent: "ident \<notin> set (map id_todo todos) \<longrightarrow> toggleTodo now todos ident = todos"
    by (simp add: toggleTodo_def map_unmatched)
  from twice absent show ?thesis
    by (simp add: toggleTodo_def)
qed

theorem toggleTodo_twice_witness:
  "''4'' \<notin> set (map id_todo
     [\<lparr>id_todo = ''1'', text_todo = ''Buy milk'', completed = False\<rparr>,
      \<lparr>id_todo = ''2'', text_todo = ''Walk dog'', completed = True\<rparr>]) \<and>
   toggleTodo 0
     [\<lparr>id_todo = ''1'', text_todo = ''Buy milk'', completed = False\<rparr>,
      \<lparr>id_todo = ''2'', text_todo = ''Walk dog'', completed = True\<rparr>] ''4'' =
     [\<lparr>id_todo = ''1'', text_todo = ''Buy milk'', completed = False\<rparr>,
      \<lparr>id_todo = ''2'', text_todo = ''Walk dog'', completed = True\<rparr>] \<and>
   toggleTodo 0
     [\<lparr>id_todo = ''1'', text_todo = ''Buy milk'', completed = False\<rparr>,
      \<lparr>id_todo = ''2'', text_todo = ''Walk dog'', completed = True\<rparr>] ''2'' ! 1 =
     \<lparr>id_todo = ''2'', text_todo = ''Walk dog'', completed = False\<rparr> \<and>
   toggleTodo 1 (toggleTodo 0
     [\<lparr>id_todo = ''1'', text_todo = ''Buy milk'', completed = False\<rparr>,
      \<lparr>id_todo = ''2'', text_todo = ''Walk dog'', completed = True\<rparr>] ''2'') ''2'' =
     [\<lparr>id_todo = ''1'', text_todo = ''Buy milk'', completed = False\<rparr>,
      \<lparr>id_todo = ''2'', text_todo = ''Walk dog'', completed = True\<rparr>]"
proof -
  let ?todos = "[\<lparr>id_todo = ''1'', text_todo = ''Buy milk'', completed = False\<rparr>,
      \<lparr>id_todo = ''2'', text_todo = ''Walk dog'', completed = True\<rparr>]"
  show ?thesis
    using toggleTodo_twice[of 1 0 ?todos "''4''"] toggleTodo_twice[of 1 0 ?todos "''2''"]
    by simp
qed

section \<open>Editing an unknown identifier\<close>

text \<open>
  C10. \<open>editTodo\<close> with a new text that does not trim to the empty string and an
  identifier that no item of the collection has returns the collection as it was.
\<close>

theorem editTodo_unknown_id:
  "trim newText \<noteq> [] \<Longrightarrow> ident \<notin> set (map id_todo todos) \<Longrightarrow>
   editTodo now todos ident newText = todos"
  by (simp add: editTodo_def map_unmatched)

theorem editTodo_unknown_id_witness:
  "trim '' Feed cat '' \<noteq> [] \<and>
   ''3'' \<notin> set (map id_todo
     [\<lparr>id_todo = ''1'', text_todo = ''Buy milk'', completed = False\<rparr>,
      \<lparr>id_todo = ''2'', text_todo = ''Walk dog'', completed = True\<rparr>]) \<and>
   editTodo 0
     [\<lparr>id_todo = ''1'', text_todo = ''Buy milk'', completed = False\<rparr>,
      \<lparr>id_todo = ''2'', text_todo = ''Walk dog'', completed = True\<rparr>] ''3'' '' Feed cat '' =
     [\<lparr>id_todo = ''1'', text_todo = ''Buy milk'', completed = False\<rparr>,
      \<lparr>id_todo = ''2'', text_todo = ''Walk dog'', completed = True\<rparr>]"
proof -
  let ?todos = "[\<lparr>id_todo = ''1'', text_todo = ''Buy milk'', completed = False\<rparr>,
      \<lparr>id_todo = ''2'', text_todo = ''Walk dog'', completed = True\<rparr>]"
  have h1: "trim '' Feed cat '' \<noteq> []" by (simp add: trim_def is_ws_def)
  have h2: "''3'' \<notin> set (map id_todo ?todos)" by simp
  show ?thesis using h1 h2 editTodo_unknown_id[OF h1 h2, of 0] by simp
qed

section \<open>The view projection\<close>

text \<open>
  C7. The show-all projection is the collection itself. The show-active and
  show-completed projections split it: both are subsequences of the collection, the
  first holds only items that are not completed and the second only completed ones, no
  item is in both, and together they hold every item as many times as the collection
  does. The sum of their lengths is \<open>activeCount + completedCount\<close>, which is the
  length of the collection.
\<close>

theorem filteredTodos_partition:
  "filteredTodos todos all_filter = todos \<and>
   mset (filteredTodos todos active_filter) + mset (filteredTodos todos completed_filter) =
     mset todos \<and>
   set (filteredTodos todos active_filter) \<inter> set (filteredTodos todos completed_filter) = {} \<and>
   subseq (filteredTodos todos active_filter) todos \<and>
   subseq (filteredTodos todos completed_filter) todos \<and>
   (\<forall>todo \<in> set (filteredTodos todos active_filter). \<not> completed todo) \<and>
   (\<forall>todo \<in> set (filteredTodos todos completed_filter). completed todo) \<and>
   length (filteredTodos todos active_filter) + length (filteredTodos todos completed_filter) =
     activeCount todos + completedCount todos \<and>
   activeCount todos + completedCount todos = length todos \<and>
   length (filteredTodos todos all_filter) = length todos"
proof -
  have parts: "mset (filter (\<lambda>todo. \<not> completed todo) todos) + mset (filter completed todos) =
      mset todos"
    by (induction todos) auto
  have total: "length (filter (\<lambda>todo. \<not> completed todo) todos) + length (filter completed todos) =
      length todos"
    using sum_length_filter_compl[of completed todos] by simp
  have apart: "set (filter (\<lambda>todo. \<not> completed todo) todos) \<inter> set (filter completed todos) = {}"
    by auto
  from parts total apart show ?thesis
    by (simp add: filteredTodos_def activeCount_def completedCount_def)
qed

theorem filteredTodos_partition_witness:
  "filteredTodos
     [\<lparr>id_todo = ''1'', text_todo = ''Buy milk'', completed = True\<rparr>,
      \<lparr>id_todo = ''2'', text_todo = ''Walk dog'', completed = False\<rparr>] completed_filter =
     [\<lparr>id_todo = ''1'', text_todo = ''Buy milk'', completed = True\<rparr>] \<and>
   activeCount
     [\<lparr>id_todo = ''1'', text_todo = ''Buy milk'', completed = True\<rparr>,
      \<lparr>id_todo = ''2'', text_todo = ''Walk dog'', completed = False\<rparr>] +
   completedCount
     [\<lparr>id_todo = ''1'', text_todo = ''Buy milk'', completed = True\<rparr>,
      \<lparr>id_todo = ''2'', text_todo = ''Walk dog'', completed = False\<rparr>] = 2"
proof -
  let ?todos = "[\<lparr>id_todo = ''1'', text_todo = ''Buy milk'', completed = True\<rparr>,
      \<lparr>id_todo = ''2'', text_todo = ''Walk dog'', completed = False\<rparr>]"
  have shown: "filteredTodos ?todos completed_filter =
      [\<lparr>id_todo = ''1'', text_todo = ''Buy milk'', completed = True\<rparr>]"
    by (simp add: filteredTodos_def)
  show ?thesis using shown filteredTodos_partition[of ?todos] by simp
qed

section \<open>Restoring the theme\<close>

text \<open>
  C8. The initializer of the theme depends on the outcome of its single read of the key
  \<open>theme\<close> only. It returns the persisted value when that is exactly \<open>light\<close> or
  \<open>dark\<close>; for every other outcome (no value, any other string, a read that throws) it
  returns \<open>light\<close>. It never throws.
\<close>

theorem initialTheme_valid_or_light:
  "initialTheme (Returns (Some ''light'')) = Returns light \<and>
   initialTheme (Returns (Some ''dark'')) = Returns dark \<and>
   (getItem_theme \<noteq> Returns (Some ''light'') \<and> getItem_theme \<noteq> Returns (Some ''dark'') \<longrightarrow>
      initialTheme getItem_theme = Returns light) \<and>
   initialTheme getItem_theme \<noteq> Throws"
  by (auto simp: initialTheme_def theme_try_block_def split: outcome.splits option.splits)

theorem initialTheme_valid_or_light_witness:
  "initialTheme Throws = Returns light \<and>
   initialTheme (Returns None) = Returns light \<and>
   initialTheme (Returns (Some ''Dark'')) = Returns light \<and>
   initialTheme (Returns (Some [])) = Returns light"
  using initialTheme_valid_or_light[of Throws] initialTheme_valid_or_light[of "Returns None"]
    initialTheme_valid_or_light[of "Returns (Some ''Dark'')"]
    initialTheme_valid_or_light[of "Returns (Some [])"]
  by simp

section \<open>Restoring the collection\<close>

text \<open>
  On well-typed collections the run-time view of the \<open>LOAD_TODOS\<close> branch agrees with
  the typed reducer.
\<close>

lemma load_payload_typed:
  "load_payload (json_of_todos state) (json_of_todos payload) =
     json_of_todos (todoReducer now state (LOAD_TODOS payload))"
  by (simp add: load_payload_def)

text \<open>
  C2, as the code has it. When the read of the key \<open>todos\<close> throws, finds no value or
  finds the empty string, or when the stored text is not parseable, the store starts
  with the empty collection. Every other stored text replaces the collection by the
  value it parses to, whatever that value is: its shape is not checked. No error
  leaves the initialization. The statement holds for any parser.
\<close>

theorem initialTodos_fallback:
  "initialTodos parse Throws = Returns (JArr []) \<and>
   initialTodos parse (Returns None) = Returns (JArr []) \<and>
   initialTodos parse (Returns (Some [])) = Returns (JArr []) \<and>
   (parse savedTodos = Throws \<longrightarrow>
      initialTodos parse (Returns (Some savedTodos)) = Returns (JArr [])) \<and>
   (savedTodos \<noteq> [] \<and> parse savedTodos = Returns parsedTodos \<longrightarrow>
      initialTodos parse (Returns (Some savedTodos)) = Returns parsedTodos) \<and>
   initialTodos parse getItem_todos \<noteq> Throws"
  by (auto simp: initialTodos_def load_try_block_def load_payload_def
      split: outcome.splits option.splits)

theorem initialTodos_fallback_witness:
  \<open>initialTodos JSON_parse (Returns (Some ''[{"id":"1","te'')) = Returns (JArr []) \<and>
   initialTodos JSON_parse
     (Returns (Some ''[{"id":"1","text":"Buy milk","completed":true}]'')) =
     Returns (json_of_todos [\<lparr>id_todo = ''1'', text_todo = ''Buy milk'', completed = True\<rparr>])\<close>
proof -
  have cut: \<open>JSON_parse ''[{"id":"1","te'' = Throws\<close>
    by code_simp
  have whole: \<open>JSON_parse ''[{"id":"1","text":"Buy milk","completed":true}]'' =
      Returns (json_of_todos [\<lparr>id_todo = ''1'', text_todo = ''Buy milk'', completed = True\<rparr>])\<close>
    by code_simp
  show ?thesis
    using cut whole
      initialTodos_fallback[of JSON_parse \<open>''[{"id":"1","te''\<close>]
      initialTodos_fallback[of JSON_parse
        \<open>''[{"id":"1","text":"Buy milk","completed":true}]''\<close>]
    by simp
qed

text \<open>
  The stored text \<open>null\<close> parses, so the state becomes \<open>null\<close>, not the empty
  collection; and an array whose item lacks the \<open>text\<close> field is loaded as it is.
\<close>

theorem initialTodos_unvalidated:
  \<open>initialTodos JSON_parse (Returns (Some ''null'')) = Returns JNull \<and>
   initialTodos JSON_parse (Returns (Some ''null'')) \<noteq> Returns (JArr []) \<and>
   initialTodos JSON_parse (Returns (Some ''[{"id":"1","completed":false}]'')) =
     Returns (JArr [JObj [(''id'', JStr ''1''), (''completed'', JBool False)]]) \<and>
   initialTodos JSON_parse (Returns (Some ''[{"id":"1","completed":false}]'')) \<noteq>
     Returns (JArr [])\<close>
proof -
  have p1: "JSON_parse ''null'' = Returns JNull"
    by code_simp
  have p2: \<open>JSON_parse ''[{"id":"1","completed":false}]'' =
      Returns (JArr [JObj [(''id'', JStr ''1''), (''completed'', JBool False)]])\<close>
    by code_simp
  show ?thesis
    using p1 p2
    by (simp add: initialTodos_def load_try_block_def load_payload_def)
qed

end
